theory Spec2Isabelle
  imports Complex_Main
begin

section \<open>Python values\<close>

text \<open>
  The values that \<^verbatim>\<open>json.loads\<close>, \<^verbatim>\<open>yaml.safe_load\<close> and the handlers exchange:
  \<^verbatim>\<open>None\<close>, booleans, integers, strings, lists and dictionaries with string keys.
  A dictionary is an association list read with \<open>map_of\<close> (the first binding of a
  key is the one a lookup sees). Python floats are left out of the embedding.
\<close>

datatype json =
    JNull
  | JBool bool
  | JInt int
  | JStr string
  | JArr "json list"
  | JObj "(string \<times> json) list"

text \<open>The exceptions the modelled code can raise; \<open>Exception\<close> carries its message.\<close>

datatype exn =
    Exception string
  | TypeError
  | ValueError
  | AttributeError
  | KeyError
  | OSError
  | YAMLError

text \<open>\<^verbatim>\<open>x or d\<close> on an optional string: \<^verbatim>\<open>None\<close> and the empty string are falsy.\<close>

definition str_or :: "string option \<Rightarrow> string \<Rightarrow> string" where
  "str_or x d = (case x of None \<Rightarrow> d | Some s \<Rightarrow> if s = [] then d else s)"

text \<open>An optional string as a value: \<^verbatim>\<open>None\<close> or the string.\<close>

definition opt_json :: "string option \<Rightarrow> json" where
  "opt_json x = (case x of None \<Rightarrow> JNull | Some s \<Rightarrow> JStr s)"

text \<open>An optional string inside an f-string: \<^verbatim>\<open>f'{origin}'\<close> prints \<^verbatim>\<open>None\<close> as \<open>None\<close>.\<close>

definition fmt_opt :: "string option \<Rightarrow> string" where
  "fmt_opt x = (case x of None \<Rightarrow> ''None'' | Some s \<Rightarrow> s)"

section \<open>The demo server: flask_test_app/app.py\<close>

text \<open>
  \<^verbatim>\<open>request.form.get\<close> and \<^verbatim>\<open>request.args.get\<close> return the field's value or
  \<^verbatim>\<open>None\<close>; the module-level dictionary \<^verbatim>\<open>temp_configs\<close> maps a domain to a
  configuration. A response is what the handler gave to \<^verbatim>\<open>redirect\<close> or to
  \<^verbatim>\<open>jsonify\<close>, with its status.
\<close>

type_synonym form = "string \<rightharpoonup> string"

type_synonym config_store = "string \<rightharpoonup> json"

datatype response =
    Redirect nat string
  | Jsonify nat json

text \<open>
  \<^verbatim>\<open>redirect(location)\<close> builds a response with status 302 and sets its
  \<open>Location\<close> header. The library refuses a header value that holds a carriage return
  or a line feed: setting it raises \<^verbatim>\<open>ValueError\<close>.
\<close>

definition redirect :: "string \<Rightarrow> exn + response" where
  "redirect location =
     (if CHR 0x0D \<in> set location \<or> CHR 0x0A \<in> set location then Inl ValueError
      else Inr (Redirect 302 location))"

text \<open>
  The objects given to \<^verbatim>\<open>jsonify\<close>. A configuration of \<^verbatim>\<open>temp_configs\<close> is built by
  \<^verbatim>\<open>submit\<close> from strings and \<^verbatim>\<open>None\<close> and is serialised as it is. What
  \<^verbatim>\<open>yaml.safe_load\<close> builds need not be: as \<^verbatim>\<open>jsonify\<close> sees it, a loaded object is
  either one it can serialise, given here by the JSON value of the body, or one it
  refuses with \<^verbatim>\<open>TypeError\<close> (a set, bytes, a dictionary whose keys cannot be sorted
  or printed).
\<close>

datatype loaded = Serialisable json | Unserialisable

definition jsonify :: "nat \<Rightarrow> loaded \<Rightarrow> exn + response" where
  "jsonify status obj =
     (case obj of
        Serialisable v \<Rightarrow> Inr (Jsonify status v)
      | Unserialisable \<Rightarrow> Inl TypeError)"

text \<open>
  \<^verbatim>\<open>
  def submit():
      email = request.form.get('email')
      phone = request.form.get('phone')
      target_domain = request.form.get('target') or 'haveibeenpwned.com'
      temp_configs[target_domain] = {'fields': {
          'email': {'input#AccountCheck_Account': email},
          'phone': {'input#PhoneField': phone or ''}}}
      return redirect(f"https://{target_domain}/")
  \<close>
  The configuration is stored before \<^verbatim>\<open>redirect\<close> is called, so it stays stored
  when \<^verbatim>\<open>redirect\<close> raises.
\<close>

definition make_config :: "string option \<Rightarrow> string option \<Rightarrow> json" where
  "make_config email phone =
     JObj [(''fields'', JObj
       [(''email'', JObj [(''input#AccountCheck_Account'', opt_json email)]),
        (''phone'', JObj [(''input#PhoneField'', JStr (str_or phone ''''))])])]"

definition submit :: "form \<Rightarrow> config_store \<Rightarrow> (exn + response) \<times> config_store" where
  "submit request_form temp_configs =
     (let email = request_form ''email'';
          phone = request_form ''phone'';
          target_domain = str_or (request_form ''target'') ''haveibeenpwned.com''
      in (redirect (''https://'' @ target_domain @ ''/''),
          temp_configs(target_domain \<mapsto> make_config email phone)))"

text \<open>
  What \<^verbatim>\<open>get_config\<close> asks of the machine it runs on: \<^verbatim>\<open>os.path.join\<close> (which
  depends on the platform), \<^verbatim>\<open>os.path.exists\<close>, reading a file and
  \<^verbatim>\<open>yaml.safe_load\<close>; the last two can raise.
\<close>

record host =
  path_join :: "string \<Rightarrow> string \<Rightarrow> string"
  path_exists :: "string \<Rightarrow> bool"
  open_read :: "string \<Rightarrow> exn + string"
  yaml_safe_load :: "string \<Rightarrow> exn + loaded"

text \<open>\<^verbatim>\<open>os.path.join('configs', f'{origin}.yaml')\<close>\<close>

definition config_path :: "host \<Rightarrow> string option \<Rightarrow> string" where
  "config_path h origin = path_join h ''configs'' (fmt_opt origin @ ''.yaml'')"

text \<open>\<^verbatim>\<open>origin in temp_configs\<close>, then \<^verbatim>\<open>temp_configs[origin]\<close>; no key is \<^verbatim>\<open>None\<close>.\<close>

definition stored_config :: "config_store \<Rightarrow> string option \<Rightarrow> json option" where
  "stored_config temp_configs origin =
     (case origin of None \<Rightarrow> None | Some s \<Rightarrow> temp_configs s)"

text \<open>
  \<^verbatim>\<open>
  def get_config():
      origin = request.args.get('origin')
      if origin in temp_configs:
          return jsonify(temp_configs[origin])
      config_path = os.path.join('configs', f'{origin}.yaml')
      if os.path.exists(config_path):
          with open(config_path, 'r') as f:
              config = yaml.safe_load(f)
          return jsonify(config)
      return jsonify({'error': 'No config found'}), 404
  \<close>
  An exception of \<^verbatim>\<open>open\<close>, of the YAML parser or of \<^verbatim>\<open>jsonify\<close> leaves the
  handler (\<open>Inl\<close>).
\<close>

definition get_config :: "host \<Rightarrow> config_store \<Rightarrow> string option \<Rightarrow> exn + response" where
  "get_config h temp_configs origin =
     (case stored_config temp_configs origin of
        Some config \<Rightarrow> jsonify 200 (Serialisable config)
      | None \<Rightarrow>
          if path_exists h (config_path h origin) then
            (case open_read h (config_path h origin) of
               Inl e \<Rightarrow> Inl e
             | Inr f \<Rightarrow>
                 (case yaml_safe_load h f of
                    Inl e \<Rightarrow> Inl e
                  | Inr config \<Rightarrow> jsonify 200 config))
          else jsonify 404 (Serialisable (JObj [(''error'', JStr ''No config found'')])))"

text \<open>
  A machine with three files under \<open>configs\<close>, used to run the handlers on examples:
  a configuration, a file that is not well-formed YAML, and a YAML set.
\<close>

definition posix_join :: "string \<Rightarrow> string \<Rightarrow> string" where
  "posix_join a b =
     (if take 1 b = ''/'' then b
      else if a = [] \<or> (a \<noteq> [] \<and> last a = CHR ''/'') then a @ b
      else a @ ''/'' @ b)"

definition demo_host :: host where
  "demo_host =
     \<lparr> path_join = posix_join,
       path_exists = (\<lambda>p. p = ''configs/example.com.yaml'' \<or> p = ''configs/broken.yaml''
                         \<or> p = ''configs/tags.yaml''),
       open_read = (\<lambda>p. if p = ''configs/example.com.yaml'' then Inr ''fields: {}''
                         else if p = ''configs/broken.yaml'' then Inr ''fields: [''
                         else if p = ''configs/tags.yaml'' then Inr ''!!set {a, b}''
                         else Inl OSError),
       yaml_safe_load = (\<lambda>s. if s = ''fields: {}'' then Inr (Serialisable (JObj [(''fields'', JObj [])]))
                              else if s = ''!!set {a, b}'' then Inr Unserialisable
                              else Inl YAMLError) \<rparr>"

section \<open>The client: examples/python-client-example.py\<close>

subsection \<open>Python operations on the parsed values\<close>

text \<open>Truthiness, as \<^verbatim>\<open>not response.get('success')\<close> reads it.\<close>

fun truthy :: "json \<Rightarrow> bool" where
  "truthy JNull = False"
| "truthy (JBool b) = b"
| "truthy (JInt i) = (i \<noteq> 0)"
| "truthy (JStr s) = (s \<noteq> [])"
| "truthy (JArr xs) = (xs \<noteq> [])"
| "truthy (JObj kvs) = (kvs \<noteq> [])"

text \<open>\<^verbatim>\<open>needle in haystack\<close> on two strings: the substring test.\<close>

fun str_contains :: "string \<Rightarrow> string \<Rightarrow> bool" where
  "str_contains needle [] = (needle = [])"
| "str_contains needle (c # cs) =
     (take (length needle) (c # cs) = needle \<or> str_contains needle cs)"

text \<open>
  \<^verbatim>\<open>key in data\<close> for a string \<open>key\<close>: a key test on a dictionary, a membership test
  on a list, a substring test on a string, and a \<^verbatim>\<open>TypeError\<close> on \<^verbatim>\<open>None\<close>, a
  boolean or an integer.
\<close>

fun py_in :: "string \<Rightarrow> json \<Rightarrow> exn + bool" where
  "py_in key (JObj kvs) = Inr (map_of kvs key \<noteq> None)"
| "py_in key (JArr xs) = Inr (JStr key \<in> set xs)"
| "py_in key (JStr s) = Inr (str_contains key s)"
| "py_in key JNull = Inl TypeError"
| "py_in key (JBool b) = Inl TypeError"
| "py_in key (JInt i) = Inl TypeError"

text \<open>
  \<^verbatim>\<open>data[key]\<close> for a string \<open>key\<close>: only a dictionary can be indexed by a string.
\<close>

fun py_getitem :: "json \<Rightarrow> string \<Rightarrow> exn + json" where
  "py_getitem (JObj kvs) key =
     (case map_of kvs key of None \<Rightarrow> Inl KeyError | Some v \<Rightarrow> Inr v)"
| "py_getitem (JArr xs) key = Inl TypeError"
| "py_getitem (JStr s) key = Inl TypeError"
| "py_getitem JNull key = Inl TypeError"
| "py_getitem (JBool b) key = Inl TypeError"
| "py_getitem (JInt i) key = Inl TypeError"

text \<open>
  \<^verbatim>\<open>data.get(key, default)\<close>: only a dictionary has the method; the default is
  returned when the key is absent (a key bound to \<^verbatim>\<open>None\<close> is present).
\<close>

fun dict_get :: "json \<Rightarrow> string \<Rightarrow> json \<Rightarrow> exn + json" where
  "dict_get (JObj kvs) key dflt =
     Inr (case map_of kvs key of None \<Rightarrow> dflt | Some v \<Rightarrow> v)"
| "dict_get (JArr xs) key dflt = Inl AttributeError"
| "dict_get (JStr s) key dflt = Inl AttributeError"
| "dict_get JNull key dflt = Inl AttributeError"
| "dict_get (JBool b) key dflt = Inl AttributeError"
| "dict_get (JInt i) key dflt = Inl AttributeError"

text \<open>
  The keys of the dictionary \<^verbatim>\<open>self.responses\<close>. A list or a dictionary is not
  hashable: using one as a key raises \<^verbatim>\<open>TypeError\<close>. \<^verbatim>\<open>True\<close> and \<^verbatim>\<open>False\<close> are
  the same keys as 1 and 0.
\<close>

datatype pykey = KNone | KInt int | KStr string

fun hash_key :: "json \<Rightarrow> exn + pykey" where
  "hash_key JNull = Inr KNone"
| "hash_key (JBool b) = Inr (KInt (if b then 1 else 0))"
| "hash_key (JInt i) = Inr (KInt i)"
| "hash_key (JStr s) = Inr (KStr s)"
| "hash_key (JArr xs) = Inl TypeError"
| "hash_key (JObj kvs) = Inl TypeError"

text \<open>Decimal notation: \<^verbatim>\<open>str(n)\<close>, as an f-string prints an integer.\<close>

definition digit_char :: "nat \<Rightarrow> char" where
  "digit_char d = ''0123456789'' ! d"

function str_nat :: "nat \<Rightarrow> string" where
  "str_nat n = (if n < 10 then [digit_char n] else str_nat (n div 10) @ [digit_char (n mod 10)])"
  by pat_completeness auto
termination
  by (relation "measure id") auto

definition str_int :: "int \<Rightarrow> string" where
  "str_int i = (if i < 0 then CHR ''-'' # str_nat (nat (- i)) else str_nat (nat i))"

text \<open>
  What the client asks of the Python library: \<^verbatim>\<open>json.loads\<close> (\<open>None\<close> stands for
  \<^verbatim>\<open>JSONDecodeError\<close>), \<^verbatim>\<open>json.dumps\<close>, and \<^verbatim>\<open>repr\<close> of a list or a dictionary.
\<close>

record pylib =
  json_loads :: "string \<Rightarrow> json option"
  json_dumps :: "json \<Rightarrow> string"
  py_repr :: "json \<Rightarrow> string"

text \<open>\<^verbatim>\<open>str(v)\<close>, as an f-string prints a value.\<close>

fun py_str :: "pylib \<Rightarrow> json \<Rightarrow> string" where
  "py_str lib JNull = ''None''"
| "py_str lib (JBool b) = (if b then ''True'' else ''False'')"
| "py_str lib (JInt i) = str_int i"
| "py_str lib (JStr s) = s"
| "py_str lib (JArr xs) = py_repr lib (JArr xs)"
| "py_str lib (JObj kvs) = py_repr lib (JObj kvs)"

subsection \<open>The client's state and its socket callbacks\<close>

text \<open>
  The attributes of \<^verbatim>\<open>BassetHoundClient\<close> that the callbacks and \<^verbatim>\<open>_send_command\<close>
  read and write, and \<open>ws_sent\<close>: the text frames handed to \<^verbatim>\<open>self.ws.send\<close>, in
  order. Errors of the socket itself are outside the embedding.
\<close>

record client =
  connected :: bool
  responses :: "pykey \<rightharpoonup> json"
  command_counter :: int
  ws_sent :: "string list"

text \<open>
  \<^verbatim>\<open>
  def on_message(ws, message):
      try:
          data = json.loads(message)
          logger.debug(f"Received: {json.dumps(data, indent=2)}")
          if 'command_id' in data:
              self.responses[data['command_id']] = data
          elif data.get('type') == 'connected':
              self.connected = True
      except json.JSONDecodeError as e:
          logger.error(f"Failed to parse message: {e}")
  \<close>
  Only \<^verbatim>\<open>JSONDecodeError\<close> is caught; any other exception leaves the callback (\<open>Inl\<close>)
  before anything is written.
\<close>

definition on_message :: "pylib \<Rightarrow> client \<Rightarrow> string \<Rightarrow> exn + client" where
  "on_message lib self message =
     (case json_loads lib message of
        None \<Rightarrow> Inr self
      | Some data \<Rightarrow>
          (case py_in ''command_id'' data of
             Inl e \<Rightarrow> Inl e
           | Inr present \<Rightarrow>
               if present then
                 (case py_getitem data ''command_id'' of
                    Inl e \<Rightarrow> Inl e
                  | Inr command_id \<Rightarrow>
                      (case hash_key command_id of
                         Inl e \<Rightarrow> Inl e
                       | Inr k \<Rightarrow> Inr (self\<lparr>responses := (responses self)(k \<mapsto> data)\<rparr>)))
               else
                 (case dict_get data ''type'' JNull of
                    Inl e \<Rightarrow> Inl e
                  | Inr ty \<Rightarrow>
                      if ty = JStr ''connected'' then Inr (self\<lparr>connected := True\<rparr>)
                      else Inr self)))"

text \<open>The values \<^verbatim>\<open>on_message\<close> stores are dictionaries.\<close>

fun is_object :: "json \<Rightarrow> bool" where
  "is_object (JObj kvs) = True"
| "is_object v = False"

text \<open>\<^verbatim>\<open>on_close\<close> sets \<^verbatim>\<open>self.connected = False\<close>.\<close>

definition on_close :: "client \<Rightarrow> client" where
  "on_close self = self\<lparr>connected := False\<rparr>"

text \<open>
  What the socket's thread does to the client: it calls \<^verbatim>\<open>on_message\<close> for a text
  frame and \<^verbatim>\<open>on_close\<close> when the connection closes. An exception of a callback is
  caught by the socket library and logged; the client is as it was.
\<close>

datatype event = Message string | Close

definition handle_event :: "pylib \<Rightarrow> client \<Rightarrow> event \<Rightarrow> client" where
  "handle_event lib self ev =
     (case ev of
        Message m \<Rightarrow> (case on_message lib self m of Inl e \<Rightarrow> self | Inr self' \<Rightarrow> self')
      | Close \<Rightarrow> on_close self)"

definition deliver :: "pylib \<Rightarrow> client \<Rightarrow> event list \<Rightarrow> client" where
  "deliver lib self evs = foldl (handle_event lib) self evs"

subsection \<open>Sending a command and waiting for its response\<close>

text \<open>
  The calling thread sees the socket's thread and the clock only at the tests of its
  polling loop. A schedule gives \<open>start_time\<close>, the reading of \<^verbatim>\<open>time.time()\<close> before
  the loop; \<open>clock i\<close>, its reading at the \<open>i\<close>-th test of the time-out; and
  \<open>arrivals i\<close>, the events the socket's thread handled before the \<open>i\<close>-th test of the
  loop condition (\<open>arrivals 0\<close> since the call began, \<open>arrivals (i + 1)\<close> during the
  \<open>i\<close>-th \<^verbatim>\<open>time.sleep(0.1)\<close>). Clock readings are real numbers. The callbacks
  only add entries to \<open>responses\<close>, so an event handled between a test and the
  statement after it may be counted with the events before that test. Calls are
  sequential: one \<^verbatim>\<open>_send_command\<close> runs at a time, and what the socket's thread does
  after the call has taken its response belongs to the time after the call.
\<close>

record schedule =
  start_time :: real
  clock :: "nat \<Rightarrow> real"
  arrivals :: "nat \<Rightarrow> event list"

text \<open>
  \<^verbatim>\<open>
  while command_id not in self.responses:
      if (time.time() - start_time) > timeout:
          raise Exception(f"Command timeout after {timeout}s")
      time.sleep(0.1)
  \<close>
  The result is \<open>None\<close> when the loop runs forever; otherwise the exception raised, if
  any, and the client as the loop leaves it.
\<close>

partial_function (option) wait_for_response ::
  "pylib \<Rightarrow> schedule \<Rightarrow> pykey \<Rightarrow> int \<Rightarrow> nat \<Rightarrow> client \<Rightarrow> (exn option \<times> client) option" where
  "wait_for_response lib sch command_id timeout i self =
     (if responses self command_id \<noteq> None then Some (None, self)
      else if clock sch i - start_time sch > real_of_int timeout then
        Some (Some (Exception (''Command timeout after '' @ str_int timeout @ ''s'')), self)
      else wait_for_response lib sch command_id timeout (Suc i)
             (deliver lib self (arrivals sch (Suc i))))"

text \<open>
  The start of \<^verbatim>\<open>_send_command\<close>, after the test of \<^verbatim>\<open>self.connected\<close>:
  \<^verbatim>\<open>
  self.command_counter += 1
  command_id = f"cmd-{self.command_counter}"
  command = {"command_id": command_id, "type": command_type, "params": params}
  self.ws.send(json.dumps(command))
  \<close>
  It gives the command identifier and the client after the send.
\<close>

definition build_command :: "string \<Rightarrow> string \<Rightarrow> json \<Rightarrow> json" where
  "build_command command_id command_type params =
     JObj [(''command_id'', JStr command_id), (''type'', JStr command_type), (''params'', params)]"

definition begin_command :: "pylib \<Rightarrow> client \<Rightarrow> string \<Rightarrow> json \<Rightarrow> string \<times> client" where
  "begin_command lib self command_type params =
     (let self1 = self\<lparr>command_counter := command_counter self + 1\<rparr>;
          command_id = ''cmd-'' @ str_int (command_counter self1);
          command = build_command command_id command_type params
      in (command_id, self1\<lparr>ws_sent := ws_sent self1 @ [json_dumps lib command]\<rparr>))"

text \<open>
  The end of \<^verbatim>\<open>_send_command\<close>, after the loop:
  \<^verbatim>\<open>
  response = self.responses.pop(command_id)
  if not response.get('success'):
      error = response.get('error', 'Unknown error')
      raise Exception(f"Command failed: {error}")
  return response.get('result', {})
  \<close>
\<close>

definition finish_command :: "pylib \<Rightarrow> client \<Rightarrow> pykey \<Rightarrow> (exn + json) \<times> client" where
  "finish_command lib self command_id =
     (case responses self command_id of
        None \<Rightarrow> (Inl KeyError, self)
      | Some response \<Rightarrow>
          (let self' = self\<lparr>responses := (responses self)(command_id := None)\<rparr> in
           case dict_get response ''success'' JNull of
             Inl e \<Rightarrow> (Inl e, self')
           | Inr success \<Rightarrow>
               if \<not> truthy success then
                 (case dict_get response ''error'' (JStr ''Unknown error'') of
                    Inl e \<Rightarrow> (Inl e, self')
                  | Inr error \<Rightarrow>
                      (Inl (Exception (''Command failed: '' @ py_str lib error)), self'))
               else
                 (case dict_get response ''result'' (JObj []) of
                    Inl e \<Rightarrow> (Inl e, self')
                  | Inr result \<Rightarrow> (Inr result, self'))))"

text \<open>
  \<^verbatim>\<open>_send_command(command_type, params, timeout)\<close>: \<open>None\<close> when the call never
  returns; otherwise the value returned (\<open>Inr\<close>) or the exception raised (\<open>Inl\<close>),
  and the client as the call leaves it.
\<close>

definition send_command ::
  "pylib \<Rightarrow> schedule \<Rightarrow> client \<Rightarrow> string \<Rightarrow> json \<Rightarrow> int \<Rightarrow> ((exn + json) \<times> client) option" where
  "send_command lib sch self command_type params timeout =
     (if \<not> connected self then Some (Inl (Exception ''Not connected to server''), self)
      else
        (case begin_command lib self command_type params of
           (command_id, self2) \<Rightarrow>
             (case wait_for_response lib sch (KStr command_id) timeout 0
                     (deliver lib self2 (arrivals sch 0)) of
                None \<Rightarrow> None
              | Some (Some e, self3) \<Rightarrow> Some (Inl e, self3)
              | Some (None, self3) \<Rightarrow> Some (finish_command lib self3 (KStr command_id)))))"

text \<open>The client at the \<open>n\<close>-th test of the loop condition, when the loop gets there.\<close>

fun poll_state :: "pylib \<Rightarrow> schedule \<Rightarrow> client \<Rightarrow> nat \<Rightarrow> client" where
  "poll_state lib sch self 0 = deliver lib self (arrivals sch 0)"
| "poll_state lib sch self (Suc n) = deliver lib (poll_state lib sch self n) (arrivals sch (Suc n))"

text \<open>
  Everything the socket's thread and the calling thread can do to a client: one step is
  one event handled or one \<^verbatim>\<open>_send_command\<close> call that has returned or raised.
\<close>

inductive client_step :: "client \<Rightarrow> client \<Rightarrow> bool" where
  event_step: "client_step self (handle_event lib self ev)"
| call_step: "send_command lib sch self command_type params timeout = Some (out, self') \<Longrightarrow>
     client_step self self'"

subsection \<open>A library instance to run the client on examples\<close>

text \<open>
  \<open>demo_dumps\<close> and \<open>demo_repr\<close> print a value as \<^verbatim>\<open>json.dumps\<close> and \<^verbatim>\<open>repr\<close> do
  when its strings are printable ASCII (for \<open>demo_repr\<close>: without quotes and
  backslashes); \<open>demo_loads\<close> parses the frames listed and rejects every other text.
\<close>

fun join :: "string \<Rightarrow> string list \<Rightarrow> string" where
  "join sep [] = []"
| "join sep [x] = x"
| "join sep (x # y # ys) = x @ sep @ join sep (y # ys)"

definition json_quote :: "string \<Rightarrow> string" where
  "json_quote s =
     CHR 0x22 # concat (map (\<lambda>c. if c = CHR 0x22 \<or> c = CHR 0x5C then [CHR 0x5C, c] else [c]) s)
       @ [CHR 0x22]"

primrec demo_dumps :: "json \<Rightarrow> string" where
  "demo_dumps JNull = ''null''"
| "demo_dumps (JBool b) = (if b then ''true'' else ''false'')"
| "demo_dumps (JInt i) = str_int i"
| "demo_dumps (JStr s) = json_quote s"
| "demo_dumps (JArr xs) = ''['' @ join '', '' (map demo_dumps xs) @ '']''"
| "demo_dumps (JObj kvs) =
     ''{'' @ join '', '' (map (\<lambda>(k, v). json_quote k @ '': '' @ v) (map (map_prod id demo_dumps) kvs))
       @ ''}''"

primrec demo_repr :: "json \<Rightarrow> string" where
  "demo_repr JNull = ''None''"
| "demo_repr (JBool b) = (if b then ''True'' else ''False'')"
| "demo_repr (JInt i) = str_int i"
| "demo_repr (JStr s) = [CHR 0x27] @ s @ [CHR 0x27]"
| "demo_repr (JArr xs) = ''['' @ join '', '' (map demo_repr xs) @ '']''"
| "demo_repr (JObj kvs) =
     ''{'' @ join '', ''
        (map (\<lambda>(k, v). [CHR 0x27] @ k @ [CHR 0x27] @ '': '' @ v) (map (map_prod id demo_repr) kvs))
       @ ''}''"

definition demo_loads :: "string \<Rightarrow> json option" where
  \<open>demo_loads message =
     (if message = ''{"type": "connected"}'' then
        Some (JObj [(''type'', JStr ''connected'')])
      else if message = ''{"command_id": "cmd-1", "success": true, "result": {"loaded": true}}'' then
        Some (JObj [(''command_id'', JStr ''cmd-1''), (''success'', JBool True),
                    (''result'', JObj [(''loaded'', JBool True)])])
      else if message = ''{"command_id": "cmd-1", "success": true}'' then
        Some (JObj [(''command_id'', JStr ''cmd-1''), (''success'', JBool True)])
      else if message = ''{"command_id": "cmd-1", "success": false, "error": "No such tab"}'' then
        Some (JObj [(''command_id'', JStr ''cmd-1''), (''success'', JBool False),
                    (''error'', JStr ''No such tab'')])
      else if message = ''{"command_id": "cmd-1"}'' then
        Some (JObj [(''command_id'', JStr ''cmd-1'')])
      else if message = ''{"command_id": "cmd-2", "success": true, "result": 7}'' then
        Some (JObj [(''command_id'', JStr ''cmd-2''), (''success'', JBool True),
                    (''result'', JInt 7)])
      else if message = ''{"command_id": ["cmd-1"], "success": true}'' then
        Some (JObj [(''command_id'', JArr [JStr ''cmd-1'']), (''success'', JBool True)])
      else if message = ''{"type": "status"}'' then
        Some (JObj [(''type'', JStr ''status'')])
      else if message = ''["command_id"]'' then
        Some (JArr [JStr ''command_id''])
      else if message = ''17'' then
        Some (JInt 17)
      else None)\<close>

definition demo_lib :: pylib where
  "demo_lib = \<lparr> json_loads = demo_loads, json_dumps = demo_dumps, py_repr = demo_repr \<rparr>"

text \<open>A client that has just connected, and one that has not.\<close>

definition fresh_client :: client where
  "fresh_client = \<lparr> connected = True, responses = Map.empty, command_counter = 0, ws_sent = [] \<rparr>"

definition offline_client :: client where
  "offline_client = \<lparr> connected = False, responses = Map.empty, command_counter = 0, ws_sent = [] \<rparr>"

text \<open>The fresh client after its first command, a \<open>navigate\<close>, has been sent.\<close>

definition sent_client :: client where
  \<open>sent_client = \<lparr> connected = True, responses = Map.empty, command_counter = 1,
     ws_sent = [''{"command_id": "cmd-1", "type": "navigate", "params": {"url": "https://example.com"}}''] \<rparr>\<close>

text \<open>
  Schedules of a call that starts at time 100 and polls at 100.0, 100.1, 100.2, ...:
  on \<open>quiet\<close> nothing arrives; on \<open>arriving m\<close> the frame \<open>m\<close> arrives during the
  second sleep.
\<close>

definition quiet :: schedule where
  "quiet = \<lparr> start_time = 100, clock = (\<lambda>i. 100 + real i / 10), arrivals = (\<lambda>i. []) \<rparr>"

definition arriving :: "string \<Rightarrow> schedule" where
  "arriving m =
     \<lparr> start_time = 100, clock = (\<lambda>i. 100 + real i / 10),
       arrivals = (\<lambda>i. if i = 2 then [Message m] else []) \<rparr>"

text \<open>
  A slower loop, with tests at 100.0, 100.4, 100.8 and 101.2: on \<open>straddling m\<close> the
  frame \<open>m\<close> arrives during the third sleep, the one that straddles a deadline of one
  second.
\<close>

definition straddling :: "string \<Rightarrow> schedule" where
  "straddling m =
     \<lparr> start_time = 100, clock = (\<lambda>i. 100 + 2 * real i / 5),
       arrivals = (\<lambda>i. if i = 3 then [Message m] else []) \<rparr>"

section \<open>Properties of the client's building blocks\<close>

declare str_nat.simps [simp del]

lemma digit_char_cases:
  assumes "(d::nat) < 10"
  shows "d \<in> {0, 1, 2, 3, 4, 5, 6, 7, 8, 9}"
  using assms by auto

lemma digit_char_inj:
  assumes "d < 10" and "d' < 10" and "digit_char d = digit_char d'"
  shows "d = d'"
  using digit_char_cases [OF assms(1)] digit_char_cases [OF assms(2)] assms(3)
  by (auto simp: digit_char_def)

lemma digit_char_not_minus: "d < 10 \<Longrightarrow> digit_char d \<noteq> CHR ''-''"
  using digit_char_cases [of d] by (auto simp: digit_char_def)

lemma str_nat_nonempty: "str_nat n \<noteq> []"
  by (subst str_nat.simps) simp

lemma str_nat_no_minus: "CHR ''-'' \<notin> set (str_nat n)"
proof (induction n rule: str_nat.induct)
  case (1 n)
  show ?case
  proof (cases "n < 10")
    case True
    then show ?thesis using digit_char_not_minus [of n]
      by (subst str_nat.simps) auto
  next
    case False
    with 1 have "CHR ''-'' \<notin> set (str_nat (n div 10))" by simp
    moreover have "digit_char (n mod 10) \<noteq> CHR ''-''"
      by (rule digit_char_not_minus) simp
    ultimately show ?thesis using False
      by (subst str_nat.simps) auto
  qed
qed

lemma str_nat_inj: "str_nat n = str_nat m \<Longrightarrow> n = m"
proof (induction n arbitrary: m rule: str_nat.induct)
  case (1 n)
  show ?case
  proof (cases "n < 10")
    case small: True
    then have n: "str_nat n = [digit_char n]" by (subst str_nat.simps) simp
    show ?thesis
    proof (cases "m < 10")
      case True
      then have "str_nat m = [digit_char m]" by (subst str_nat.simps) simp
      with n "1.prems" small True show ?thesis by (auto dest: digit_char_inj)
    next
      case False
      then have "str_nat m = str_nat (m div 10) @ [digit_char (m mod 10)]"
        by (subst str_nat.simps) simp
      with n "1.prems" have "str_nat (m div 10) = []" by simp
      then show ?thesis by (simp add: str_nat_nonempty)
    qed
  next
    case big: False
    then have n: "str_nat n = str_nat (n div 10) @ [digit_char (n mod 10)]"
      by (subst str_nat.simps) simp
    show ?thesis
    proof (cases "m < 10")
      case True
      then have "str_nat m = [digit_char m]" by (subst str_nat.simps) simp
      with n "1.prems" have "str_nat (n div 10) = []" by simp
      then show ?thesis by (simp add: str_nat_nonempty)
    next
      case False
      then have "str_nat m = str_nat (m div 10) @ [digit_char (m mod 10)]"
        by (subst str_nat.simps) simp
      with n "1.prems" have eq: "str_nat (n div 10) = str_nat (m div 10)"
        and d: "digit_char (n mod 10) = digit_char (m mod 10)" by simp_all
      from "1.IH" [OF big eq] have "n div 10 = m div 10" .
      moreover have "n mod 10 = m mod 10"
        by (rule digit_char_inj [OF _ _ d]) simp_all
      ultimately show ?thesis by (metis div_mult_mod_eq)
    qed
  qed
qed

lemma str_int_inj: "str_int i = str_int j \<Longrightarrow> i = j"
proof -
  assume eq: "str_int i = str_int j"
  have hd: "\<And>n. hd (str_nat n) \<noteq> CHR ''-''"
    using str_nat_no_minus str_nat_nonempty by (metis hd_in_set)
  show "i = j"
  proof (cases "i < 0")
    case ineg: True
    show ?thesis
    proof (cases "j < 0")
      case True
      with ineg eq have "nat (- i) = nat (- j)" by (auto simp: str_int_def dest: str_nat_inj)
      with ineg True show ?thesis by simp
    next
      case False
      with ineg eq have "CHR ''-'' # str_nat (nat (- i)) = str_nat (nat j)" by (simp add: str_int_def)
      then have "hd (str_nat (nat j)) = CHR ''-''" by (metis list.sel(1))
      with hd show ?thesis by simp
    qed
  next
    case ipos: False
    show ?thesis
    proof (cases "j < 0")
      case True
      with ipos eq have "str_nat (nat i) = CHR ''-'' # str_nat (nat (- j))" by (simp add: str_int_def)
      then have "hd (str_nat (nat i)) = CHR ''-''" by (metis list.sel(1))
      with hd show ?thesis by simp
    next
      case False
      with ipos eq have "nat i = nat j" by (auto simp: str_int_def dest: str_nat_inj)
      with ipos False show ?thesis by simp
    qed
  qed
qed

lemma on_message_frame:
  "on_message lib self m = Inr self' \<Longrightarrow>
     ws_sent self' = ws_sent self \<and> command_counter self' = command_counter self"
  by (auto simp: on_message_def split: option.splits sum.splits if_splits)

lemma handle_event_frame:
  "ws_sent (handle_event lib self ev) = ws_sent self \<and>
   command_counter (handle_event lib self ev) = command_counter self"
  by (auto simp: handle_event_def on_close_def dest: on_message_frame split: event.splits sum.splits)

lemma deliver_frame:
  "ws_sent (deliver lib self evs) = ws_sent self \<and>
   command_counter (deliver lib self evs) = command_counter self"
  unfolding deliver_def by (induction evs arbitrary: self) (simp_all add: handle_event_frame)

lemma poll_state_frame:
  "ws_sent (poll_state lib sch self n) = ws_sent self \<and>
   command_counter (poll_state lib sch self n) = command_counter self"
  by (induction n) (simp_all add: deliver_frame)

lemma wait_skip:
  assumes "\<forall>j<k. responses (poll_state lib sch self j) cid = None \<and>
                  clock sch j - start_time sch \<le> real_of_int timeout"
  shows "wait_for_response lib sch cid timeout 0 (poll_state lib sch self 0) =
         wait_for_response lib sch cid timeout k (poll_state lib sch self k)"
  using assms
proof (induction k)
  case 0
  show ?case by simp
next
  case (Suc k)
  then have "wait_for_response lib sch cid timeout 0 (poll_state lib sch self 0) =
         wait_for_response lib sch cid timeout k (poll_state lib sch self k)" by simp
  moreover from Suc.prems have "responses (poll_state lib sch self k) cid = None"
    "\<not> clock sch k - start_time sch > real_of_int timeout" by auto
  then have "wait_for_response lib sch cid timeout k (poll_state lib sch self k) =
      wait_for_response lib sch cid timeout (Suc k) (poll_state lib sch self (Suc k))"
    by (subst wait_for_response.simps) simp
  ultimately show ?case by simp
qed

lemma wait_found:
  assumes "\<forall>j<n. responses (poll_state lib sch self j) cid = None \<and>
                  clock sch j - start_time sch \<le> real_of_int timeout"
    and "responses (poll_state lib sch self n) cid \<noteq> None"
  shows "wait_for_response lib sch cid timeout 0 (poll_state lib sch self 0) =
         Some (None, poll_state lib sch self n)"
  using wait_skip [OF assms(1)] assms(2)
  by (simp add: wait_for_response.simps [of _ _ _ _ n])

lemma wait_timeout:
  assumes "\<forall>j<n. responses (poll_state lib sch self j) cid = None \<and>
                  clock sch j - start_time sch \<le> real_of_int timeout"
    and "responses (poll_state lib sch self n) cid = None"
    and "clock sch n - start_time sch > real_of_int timeout"
  shows "wait_for_response lib sch cid timeout 0 (poll_state lib sch self 0) =
         Some (Some (Exception (''Command timeout after '' @ str_int timeout @ ''s'')),
               poll_state lib sch self n)"
  using wait_skip [OF assms(1)] assms(2,3)
  by (simp add: wait_for_response.simps [of _ _ _ _ n])



lemma wait_frame:
  assumes "wait_for_response lib sch cid timeout i self = Some r"
  shows "ws_sent (snd r) = ws_sent self \<and> command_counter (snd r) = command_counter self"
proof (rule wait_for_response.raw_induct
    [where P = "\<lambda>lib sch cid timeout i self r.
        ws_sent (snd r) = ws_sent self \<and> command_counter (snd r) = command_counter self",
     OF _ assms])
  fix w lib sch cid timeout i self r
  assume IH: "\<And>lib sch cid timeout i self r. w lib sch cid timeout i self = Some r \<Longrightarrow>
      ws_sent (snd r) = ws_sent self \<and> command_counter (snd r) = command_counter self"
    and body: "(if responses self cid \<noteq> None then Some (None, self)
      else if real_of_int timeout < clock sch i - start_time sch
           then Some (Some (Exception (''Command timeout after '' @ str_int timeout @ ''s'')), self)
           else w lib sch cid timeout (Suc i) (deliver lib self (arrivals sch (Suc i)))) = Some r"
  show "ws_sent (snd r) = ws_sent self \<and> command_counter (snd r) = command_counter self"
  proof (cases "responses self cid \<noteq> None \<or> real_of_int timeout < clock sch i - start_time sch")
    case True
    with body show ?thesis by (auto split: if_splits)
  next
    case False
    with body have "w lib sch cid timeout (Suc i) (deliver lib self (arrivals sch (Suc i))) = Some r"
      by simp
    from IH [OF this] show ?thesis by (simp add: deliver_frame)
  qed
qed

section \<open>Properties of the demo server\<close>

text \<open>
  C7, as the code has it: a POST to /submit whose \<open>target\<close> field is present and not
  empty stores the configuration built from the submitted \<open>email\<close> and \<open>phone\<close> under
  that very value and leaves every other key of \<open>temp_configs\<close> alone; when the value
  holds no carriage return and no line feed the handler redirects to \<open>https://<target>/\<close>,
  whatever else the value is, and otherwise \<^verbatim>\<open>redirect\<close> raises \<^verbatim>\<open>ValueError\<close>, after
  the configuration has been stored.
\<close>

theorem submit_target_open_redirect:
  assumes "f ''target'' = Some t" and "t \<noteq> []"
  shows "submit f tc =
           (if CHR 0x0D \<in> set t \<or> CHR 0x0A \<in> set t then Inl ValueError
            else Inr (Redirect 302 (''https://'' @ t @ ''/'')),
            tc(t \<mapsto> JObj [(''fields'', JObj
              [(''email'', JObj [(''input#AccountCheck_Account'', opt_json (f ''email''))]),
               (''phone'', JObj [(''input#PhoneField'', JStr (str_or (f ''phone'') ''''))])])]))"
  using assms by (simp add: submit_def redirect_def str_or_def make_config_def)

theorem submit_target_open_redirect_witness:
  "[''target'' \<mapsto> ''evil.example'', ''email'' \<mapsto> ''a@b.c''] ''target'' = Some ''evil.example''
   \<and> ''evil.example'' \<noteq> []
   \<and> submit [''target'' \<mapsto> ''evil.example'', ''email'' \<mapsto> ''a@b.c''] Map.empty =
        (Inr (Redirect 302 ''https://evil.example/''),
         [''evil.example'' \<mapsto> JObj [(''fields'', JObj
            [(''email'', JObj [(''input#AccountCheck_Account'', JStr ''a@b.c'')]),
             (''phone'', JObj [(''input#PhoneField'', JStr '''')])])]])
   \<and> [''target'' \<mapsto> [CHR ''a'', CHR 0x0A, CHR ''b'']] ''target'' = Some [CHR ''a'', CHR 0x0A, CHR ''b'']
   \<and> [CHR ''a'', CHR 0x0A, CHR ''b''] \<noteq> []
   \<and> submit [''target'' \<mapsto> [CHR ''a'', CHR 0x0A, CHR ''b'']] Map.empty =
        (Inl ValueError,
         [[CHR ''a'', CHR 0x0A, CHR ''b''] \<mapsto> JObj [(''fields'', JObj
            [(''email'', JObj [(''input#AccountCheck_Account'', JNull)]),
             (''phone'', JObj [(''input#PhoneField'', JStr '''')])])]])"
  using submit_target_open_redirect
    [of "[''target'' \<mapsto> ''evil.example'', ''email'' \<mapsto> ''a@b.c'']" "''evil.example''" Map.empty]
    submit_target_open_redirect
    [of "[''target'' \<mapsto> [CHR ''a'', CHR 0x0A, CHR ''b'']]" "[CHR ''a'', CHR 0x0A, CHR ''b'']" Map.empty]
  by (simp add: opt_json_def str_or_def)

text \<open>
  C7 as it is written fails for a \<open>target\<close> field that the caller supplies empty: the
  configuration is not stored under the empty string and the redirect does not go to
  \<open>https:///\<close>; the default domain is used instead. It also fails for a target that
  holds a line feed: the configuration is stored under it, and the handler raises
  instead of redirecting.
\<close>

theorem submit_empty_target_counterexample:
  "[''target'' \<mapsto> ''''] ''target'' = Some ''''
   \<and> fst (submit [''target'' \<mapsto> ''''] Map.empty) = Inr (Redirect 302 ''https://haveibeenpwned.com/'')
   \<and> fst (submit [''target'' \<mapsto> ''''] Map.empty) \<noteq> Inr (Redirect 302 (''https://'' @ '''' @ ''/''))
   \<and> snd (submit [''target'' \<mapsto> ''''] Map.empty) '''' = None
   \<and> snd (submit [''target'' \<mapsto> ''''] Map.empty) ''haveibeenpwned.com'' \<noteq> None
   \<and> fst (submit [''target'' \<mapsto> [CHR ''a'', CHR 0x0A, CHR ''b'']] Map.empty) = Inl ValueError
   \<and> snd (submit [''target'' \<mapsto> [CHR ''a'', CHR 0x0A, CHR ''b'']] Map.empty)
        [CHR ''a'', CHR 0x0A, CHR ''b''] \<noteq> None"
  by (simp add: submit_def redirect_def str_or_def)

text \<open>
  C9: when the \<open>target\<close> field is absent or empty, the configuration is stored under
  \<open>haveibeenpwned.com\<close> and the redirect goes to \<open>https://haveibeenpwned.com/\<close>; and
  whatever the target, an absent \<open>phone\<close> field is stored as the empty string, not as
  \<^verbatim>\<open>None\<close>.
\<close>

theorem submit_default_target:
  "(f ''target'' = None \<or> f ''target'' = Some '''' \<longrightarrow>
      submit f tc =
        (Inr (Redirect 302 ''https://haveibeenpwned.com/''),
         tc(''haveibeenpwned.com'' \<mapsto> JObj [(''fields'', JObj
           [(''email'', JObj [(''input#AccountCheck_Account'', opt_json (f ''email''))]),
            (''phone'', JObj [(''input#PhoneField'', JStr (str_or (f ''phone'') ''''))])])])))
   \<and> (f ''phone'' = None \<longrightarrow>
      snd (submit f tc) (str_or (f ''target'') ''haveibeenpwned.com'') =
        Some (JObj [(''fields'', JObj
           [(''email'', JObj [(''input#AccountCheck_Account'', opt_json (f ''email''))]),
            (''phone'', JObj [(''input#PhoneField'', JStr '''')])])]))"
  by (auto simp add: submit_def redirect_def str_or_def make_config_def Let_def)

theorem submit_default_target_witness:
  "[''email'' \<mapsto> ''a@b.c''] ''target'' = None
   \<and> [''email'' \<mapsto> ''a@b.c''] ''phone'' = None
   \<and> submit [''email'' \<mapsto> ''a@b.c''] Map.empty =
        (Inr (Redirect 302 ''https://haveibeenpwned.com/''),
         [''haveibeenpwned.com'' \<mapsto> JObj [(''fields'', JObj
            [(''email'', JObj [(''input#AccountCheck_Account'', JStr ''a@b.c'')]),
             (''phone'', JObj [(''input#PhoneField'', JStr '''')])])]])
   \<and> [''target'' \<mapsto> '''', ''phone'' \<mapsto> ''555''] ''target'' = Some ''''
   \<and> submit [''target'' \<mapsto> '''', ''phone'' \<mapsto> ''555''] Map.empty =
        (Inr (Redirect 302 ''https://haveibeenpwned.com/''),
         [''haveibeenpwned.com'' \<mapsto> JObj [(''fields'', JObj
            [(''email'', JObj [(''input#AccountCheck_Account'', JNull)]),
             (''phone'', JObj [(''input#PhoneField'', JStr ''555'')])])]])"
  using submit_default_target [of "[''email'' \<mapsto> ''a@b.c'']" Map.empty]
    submit_default_target [of "[''target'' \<mapsto> '''', ''phone'' \<mapsto> ''555'']" Map.empty]
  by (simp add: opt_json_def str_or_def)

text \<open>
  C8, as the code has it: for a request with \<open>origin=o\<close>, the handler answers 200 with
  the stored configuration when \<open>o\<close> is a key of \<open>temp_configs\<close>. Otherwise, when the
  file \<open>configs/o.yaml\<close> (the path \<^verbatim>\<open>os.path.join\<close> builds) exists: it answers 200
  with the parsed configuration when the file is read and the YAML loader builds an
  object that \<^verbatim>\<open>jsonify\<close> can serialise; the handler raises \<^verbatim>\<open>TypeError\<close> when the
  loader builds an object \<^verbatim>\<open>jsonify\<close> refuses; and it raises what \<^verbatim>\<open>open\<close> or the
  loader raises. When \<open>o\<close> is no key and no such file exists, it answers 404 with
  \<open>{"error": "No config found"}\<close>.
\<close>

theorem get_config_cases:
  "(tc origin = Some stored \<longrightarrow>
      get_config h tc (Some origin) = Inr (Jsonify 200 stored))
   \<and> (tc origin = None \<and> path_exists h (config_path h (Some origin))
        \<and> open_read h (config_path h (Some origin)) = Inr f
        \<and> yaml_safe_load h f = Inr (Serialisable parsed) \<longrightarrow>
      get_config h tc (Some origin) = Inr (Jsonify 200 parsed))
   \<and> (tc origin = None \<and> path_exists h (config_path h (Some origin))
        \<and> open_read h (config_path h (Some origin)) = Inr f
        \<and> yaml_safe_load h f = Inr Unserialisable \<longrightarrow>
      get_config h tc (Some origin) = Inl TypeError)
   \<and> (tc origin = None \<and> path_exists h (config_path h (Some origin))
        \<and> open_read h (config_path h (Some origin)) = Inr f
        \<and> yaml_safe_load h f = Inl e \<longrightarrow>
      get_config h tc (Some origin) = Inl e)
   \<and> (tc origin = None \<and> path_exists h (config_path h (Some origin))
        \<and> open_read h (config_path h (Some origin)) = Inl e \<longrightarrow>
      get_config h tc (Some origin) = Inl e)
   \<and> (tc origin = None \<and> \<not> path_exists h (config_path h (Some origin)) \<longrightarrow>
      get_config h tc (Some origin) =
        Inr (Jsonify 404 (JObj [(''error'', JStr ''No config found'')])))"
  by (simp add: get_config_def stored_config_def jsonify_def)

theorem get_config_cases_witness:
  "[''evil.example'' \<mapsto> JObj []] ''evil.example'' = Some (JObj [])
   \<and> get_config demo_host [''evil.example'' \<mapsto> JObj []] (Some ''evil.example'') =
        Inr (Jsonify 200 (JObj []))
   \<and> Map.empty ''example.com'' = (None :: json option)
   \<and> config_path demo_host (Some ''example.com'') = ''configs/example.com.yaml''
   \<and> path_exists demo_host ''configs/example.com.yaml''
   \<and> open_read demo_host ''configs/example.com.yaml'' = Inr ''fields: {}''
   \<and> yaml_safe_load demo_host ''fields: {}'' = Inr (Serialisable (JObj [(''fields'', JObj [])]))
   \<and> get_config demo_host Map.empty (Some ''example.com'') =
        Inr (Jsonify 200 (JObj [(''fields'', JObj [])]))
   \<and> config_path demo_host (Some ''tags'') = ''configs/tags.yaml''
   \<and> path_exists demo_host ''configs/tags.yaml''
   \<and> open_read demo_host ''configs/tags.yaml'' = Inr ''!!set {a, b}''
   \<and> yaml_safe_load demo_host ''!!set {a, b}'' = Inr Unserialisable
   \<and> get_config demo_host Map.empty (Some ''tags'') = Inl TypeError
   \<and> config_path demo_host (Some ''broken'') = ''configs/broken.yaml''
   \<and> path_exists demo_host ''configs/broken.yaml''
   \<and> open_read demo_host ''configs/broken.yaml'' = Inr ''fields: [''
   \<and> yaml_safe_load demo_host ''fields: ['' = Inl YAMLError
   \<and> get_config demo_host Map.empty (Some ''broken'') = Inl YAMLError
   \<and> \<not> path_exists demo_host (config_path demo_host (Some ''nowhere.test''))
   \<and> get_config demo_host Map.empty (Some ''nowhere.test'') =
        Inr (Jsonify 404 (JObj [(''error'', JStr ''No config found'')]))"
  using get_config_cases
      [of "[''evil.example'' \<mapsto> JObj []]" "''evil.example''" "JObj []" demo_host]
    get_config_cases
      [of Map.empty "''example.com''" _ demo_host "''fields: {}''" "JObj [(''fields'', JObj [])]"]
    get_config_cases [of Map.empty "''tags''" _ demo_host "''!!set {a, b}''"]
    get_config_cases [of Map.empty "''broken''" _ demo_host "''fields: [''" _ YAMLError]
    get_config_cases [of Map.empty "''nowhere.test''" _ demo_host]
  by (simp add: demo_host_def config_path_def posix_join_def fmt_opt_def)

text \<open>
  C8 as it is written fails when the file exists and is not well-formed YAML: the
  loader's exception leaves the handler, which answers neither 200 with a configuration
  nor 404 with \<open>No config found\<close>. It also fails when the file is well-formed YAML for
  an object that \<^verbatim>\<open>jsonify\<close> refuses, here a set.
\<close>

theorem get_config_broken_file_counterexample:
  "Map.empty ''broken'' = (None :: json option)
   \<and> config_path demo_host (Some ''broken'') = ''configs/broken.yaml''
   \<and> path_exists demo_host ''configs/broken.yaml''
   \<and> get_config demo_host Map.empty (Some ''broken'') = Inl YAMLError
   \<and> get_config demo_host Map.empty (Some ''broken'') \<noteq>
        Inr (Jsonify 404 (JObj [(''error'', JStr ''No config found'')]))
   \<and> config_path demo_host (Some ''tags'') = ''configs/tags.yaml''
   \<and> path_exists demo_host ''configs/tags.yaml''
   \<and> get_config demo_host Map.empty (Some ''tags'') = Inl TypeError"
  by (simp add: get_config_def stored_config_def demo_host_def config_path_def posix_join_def
      fmt_opt_def jsonify_def)

text \<open>
  C10: when \<open>o\<close> is a key of \<open>temp_configs\<close>, GET /config?origin=o answers with the
  in-memory configuration without looking at the file system: it is the answer on every
  machine, also on one where \<open>configs/o.yaml\<close> exists and holds something else.
\<close>

theorem get_config_memory_first:
  assumes "tc origin = Some stored"
  shows "get_config h tc (Some origin) = Inr (Jsonify 200 stored)"
  using assms by (simp add: get_config_def stored_config_def jsonify_def)

theorem get_config_memory_first_witness:
  "[''example.com'' \<mapsto> JObj [(''fields'', JObj [(''email'', JNull)])]] ''example.com''
      = Some (JObj [(''fields'', JObj [(''email'', JNull)])])
   \<and> path_exists demo_host (config_path demo_host (Some ''example.com''))
   \<and> get_config demo_host Map.empty (Some ''example.com'') =
        Inr (Jsonify 200 (JObj [(''fields'', JObj [])]))
   \<and> get_config demo_host [''example.com'' \<mapsto> JObj [(''fields'', JObj [(''email'', JNull)])]]
        (Some ''example.com'') =
        Inr (Jsonify 200 (JObj [(''fields'', JObj [(''email'', JNull)])]))"
  using get_config_memory_first
      [of "[''example.com'' \<mapsto> JObj [(''fields'', JObj [(''email'', JNull)])]]"
          "''example.com''" "JObj [(''fields'', JObj [(''email'', JNull)])]" demo_host]
  by (simp add: demo_host_def config_path_def posix_join_def fmt_opt_def
      get_config_def stored_config_def jsonify_def)

section \<open>Properties of the client\<close>

lemma finish_command_frame:
  "ws_sent (snd (finish_command lib self k)) = ws_sent self \<and>
   command_counter (snd (finish_command lib self k)) = command_counter self"
  by (auto simp: finish_command_def Let_def split: option.splits sum.splits)

lemma begin_command_eq:
  "begin_command lib self command_type params =
     (''cmd-'' @ str_int (command_counter self + 1),
      self\<lparr>command_counter := command_counter self + 1,
            ws_sent := ws_sent self @
              [json_dumps lib (JObj [(''command_id'', JStr (''cmd-'' @ str_int (command_counter self + 1))),
                                     (''type'', JStr command_type), (''params'', params)])]\<rparr>)"
  by (simp add: begin_command_def build_command_def Let_def)

lemma send_command_found:
  assumes "connected self"
    and "begin_command lib self command_type params = (command_id, self2)"
    and "\<forall>j<n. responses (poll_state lib sch self2 j) (KStr command_id) = None \<and>
               clock sch j - start_time sch \<le> real_of_int timeout"
    and "responses (poll_state lib sch self2 n) (KStr command_id) \<noteq> None"
  shows "send_command lib sch self command_type params timeout =
           Some (finish_command lib (poll_state lib sch self2 n) (KStr command_id))"
  using assms(1,2) wait_found [OF assms(3,4)]
  by (simp add: send_command_def)

lemma send_command_timeout_first:
  assumes "connected self"
    and "begin_command lib self command_type params = (command_id, self2)"
    and "\<forall>j<n. responses (poll_state lib sch self2 j) (KStr command_id) = None \<and>
               clock sch j - start_time sch \<le> real_of_int timeout"
    and "responses (poll_state lib sch self2 n) (KStr command_id) = None"
    and "clock sch n - start_time sch > real_of_int timeout"
  shows "send_command lib sch self command_type params timeout =
           Some (Inl (Exception (''Command timeout after '' @ str_int timeout @ ''s'')),
                 poll_state lib sch self2 n)"
  using assms(1,2) wait_timeout [OF assms(3,4,5)]
  by (simp add: send_command_def)


lemma send_command_frame:
  assumes "connected self"
    and "send_command lib sch self command_type params timeout = Some (out, self')"
  shows "ws_sent self' = ws_sent (snd (begin_command lib self command_type params)) \<and>
         command_counter self' = command_counter self + 1"
proof -
  obtain cid self2 where b: "begin_command lib self command_type params = (cid, self2)"
    by (cases "begin_command lib self command_type params")
  then have c2: "command_counter self2 = command_counter self + 1"
    by (auto simp add: begin_command_def Let_def)
  from assms b obtain e self3 where
    w: "wait_for_response lib sch (KStr cid) timeout 0 (deliver lib self2 (arrivals sch 0)) = Some (e, self3)"
    and fin: "(out, self') = (case e of Some x \<Rightarrow> (Inl x, self3) | None \<Rightarrow> finish_command lib self3 (KStr cid))"
    by (auto simp add: send_command_def split: option.splits)
  from wait_frame [OF w] have "ws_sent self3 = ws_sent self2" "command_counter self3 = command_counter self2"
    by (simp_all add: deliver_frame)
  moreover from fin have "ws_sent self' = ws_sent self3 \<and> command_counter self' = command_counter self3"
    using finish_command_frame [of lib self3 "KStr cid"]
    by (cases e) (auto simp: prod_eq_iff)
  ultimately show ?thesis using b c2 by simp
qed

text \<open>Running the examples: the definitions to unfold, and the polls of the two schedules.\<close>

lemmas run_simps =
  send_command_def begin_command_def build_command_def finish_command_def Let_def
  deliver_def handle_event_def on_message_def on_close_def
  demo_lib_def demo_loads_def demo_dumps.simps json_quote_def
  fresh_client_def offline_client_def quiet_def arriving_def
  str_int_def str_nat.simps digit_char_def

lemma begin_fresh:
  "begin_command demo_lib fresh_client ''navigate'' (JObj [(''url'', JStr ''https://example.com'')]) =
     (''cmd-1'', sent_client)"
  by (simp add: run_simps sent_client_def)

lemma all_less_two: "(\<forall>j<2. P (j::nat)) \<longleftrightarrow> P 0 \<and> P 1"
  by (auto simp: less_2_cases_iff)

lemma arriving_polls:
  assumes "demo_loads m = Some (JObj kvs)" and "map_of kvs ''command_id'' = Some (JStr ''cmd-1'')"
  shows "\<forall>j<2. responses (poll_state demo_lib (arriving m) sent_client j) (KStr ''cmd-1'') = None \<and>
               clock (arriving m) j - start_time (arriving m) \<le> real_of_int 30"
    and "responses (poll_state demo_lib (arriving m) sent_client 2) (KStr ''cmd-1'') = Some (JObj kvs)"
proof -
  have p0: "poll_state demo_lib (arriving m) sent_client 0 = sent_client"
    by (simp add: deliver_def arriving_def)
  have p1: "poll_state demo_lib (arriving m) sent_client 1 = sent_client"
    using p0 by (simp add: deliver_def arriving_def)
  show "\<forall>j<2. responses (poll_state demo_lib (arriving m) sent_client j) (KStr ''cmd-1'') = None \<and>
               clock (arriving m) j - start_time (arriving m) \<le> real_of_int 30"
    unfolding all_less_two p0 p1 by (simp add: arriving_def sent_client_def)
  show "responses (poll_state demo_lib (arriving m) sent_client 2) (KStr ''cmd-1'') = Some (JObj kvs)"
    using p1 assms
    by (simp add: numeral_2_eq_2 deliver_def handle_event_def on_message_def demo_lib_def arriving_def)
qed

lemma loads_result:
  \<open>demo_loads ''{"command_id": "cmd-1", "success": true, "result": {"loaded": true}}'' =
     Some (JObj [(''command_id'', JStr ''cmd-1''), (''success'', JBool True),
                 (''result'', JObj [(''loaded'', JBool True)])])\<close>
  by (simp add: demo_loads_def)

lemma loads_no_result:
  \<open>demo_loads ''{"command_id": "cmd-1", "success": true}'' =
     Some (JObj [(''command_id'', JStr ''cmd-1''), (''success'', JBool True)])\<close>
  by (simp add: demo_loads_def)

lemma loads_error:
  \<open>demo_loads ''{"command_id": "cmd-1", "success": false, "error": "No such tab"}'' =
     Some (JObj [(''command_id'', JStr ''cmd-1''), (''success'', JBool False),
                 (''error'', JStr ''No such tab'')])\<close>
  by (simp add: demo_loads_def)

lemma loads_bare:
  \<open>demo_loads ''{"command_id": "cmd-1"}'' = Some (JObj [(''command_id'', JStr ''cmd-1'')])\<close>
  by (simp add: demo_loads_def)

lemma quiet_polls: "poll_state demo_lib quiet self n = self"
  by (induction n) (simp_all add: deliver_def quiet_def)

lemma all_less_three: "(\<forall>j<3. P (j::nat)) \<longleftrightarrow> P 0 \<and> P 1 \<and> P 2"
proof -
  have "\<And>j::nat. j < 3 \<longleftrightarrow> j = 0 \<or> j = 1 \<or> j = 2" by auto
  then show ?thesis by auto
qed

lemma straddling_polls:
  assumes "demo_loads m = Some (JObj kvs)" and "map_of kvs ''command_id'' = Some (JStr ''cmd-1'')"
  shows "poll_state demo_lib (straddling m) sent_client 0 = sent_client"
    and "poll_state demo_lib (straddling m) sent_client 1 = sent_client"
    and "poll_state demo_lib (straddling m) sent_client 2 = sent_client"
    and "responses (poll_state demo_lib (straddling m) sent_client 3) (KStr ''cmd-1'') = Some (JObj kvs)"
proof -
  show p0: "poll_state demo_lib (straddling m) sent_client 0 = sent_client"
    by (simp add: deliver_def straddling_def)
  show p1: "poll_state demo_lib (straddling m) sent_client 1 = sent_client"
    using p0 by (simp add: deliver_def straddling_def)
  have "poll_state demo_lib (straddling m) sent_client (Suc 1) = sent_client"
    unfolding poll_state.simps p1 by (simp add: deliver_def straddling_def)
  then show p2: "poll_state demo_lib (straddling m) sent_client 2 = sent_client"
    by (simp add: numeral_2_eq_2)
  have "responses (poll_state demo_lib (straddling m) sent_client (Suc 2)) (KStr ''cmd-1'') = Some (JObj kvs)"
    unfolding poll_state.simps p2 using assms
    by (simp add: deliver_def handle_event_def on_message_def demo_lib_def straddling_def)
  then show "responses (poll_state demo_lib (straddling m) sent_client 3) (KStr ''cmd-1'') = Some (JObj kvs)"
    by (simp add: numeral_3_eq_3)
qed


lemma on_message_obj:
  assumes "json_loads lib m = Some (JObj kvs)"
  shows "on_message lib self m =
     (case map_of kvs ''command_id'' of
        Some v \<Rightarrow>
          (case hash_key v of
             Inl e \<Rightarrow> Inl e
           | Inr k \<Rightarrow> Inr (self\<lparr>responses := (responses self)(k \<mapsto> JObj kvs)\<rparr>))
      | None \<Rightarrow>
          Inr (if map_of kvs ''type'' = Some (JStr ''connected'') then self\<lparr>connected := True\<rparr>
               else self))"
proof (cases "map_of kvs ''command_id''")
  case None
  with assms show ?thesis
    by (cases "map_of kvs ''type''") (simp_all add: on_message_def)
next
  case (Some v)
  with assms show ?thesis by (simp add: on_message_def)
qed

lemma on_message_non_obj:
  assumes "json_loads lib m = Some d" and "\<forall>kvs. d \<noteq> JObj kvs"
  shows "\<exists>e. on_message lib self m = Inl e"
  using assms by (cases d) (simp_all add: on_message_def)


text \<open>
  Only dictionaries get into \<open>responses\<close>: the callbacks keep the map free of other
  values, so the response a call finds is a dictionary.
\<close>

lemma on_message_objects:
  assumes "on_message lib self m = Inr self'"
    and "\<forall>k v. responses self k = Some v \<longrightarrow> is_object v"
  shows "\<forall>k v. responses self' k = Some v \<longrightarrow> is_object v"
proof (cases "json_loads lib m")
  case None
  with assms show ?thesis by (simp add: on_message_def)
next
  case (Some d)
  show ?thesis
  proof (cases "\<exists>kvs. d = JObj kvs")
    case False
    with on_message_non_obj [OF Some, of self] assms(1) show ?thesis by auto
  next
    case True
    then obtain kvs where d: "d = JObj kvs" by blast
    note eq = on_message_obj [OF Some [unfolded d], of self]
    show ?thesis
    proof (cases "map_of kvs ''command_id''")
      case None
      with eq assms show ?thesis by (auto split: if_splits)
    next
      case (Some c)
      with eq assms show ?thesis by (cases "hash_key c") (auto split: if_splits)
    qed
  qed
qed

lemma handle_event_objects:
  assumes "\<forall>k v. responses self k = Some v \<longrightarrow> is_object v"
  shows "\<forall>k v. responses (handle_event lib self ev) k = Some v \<longrightarrow> is_object v"
proof (cases ev)
  case (Message m)
  show ?thesis
  proof (cases "on_message lib self m")
    case (Inl e)
    with Message assms show ?thesis by (simp add: handle_event_def)
  next
    case (Inr self')
    from on_message_objects [OF Inr assms] Message Inr show ?thesis by (simp add: handle_event_def)
  qed
next
  case Close
  with assms show ?thesis by (simp add: handle_event_def on_close_def)
qed

lemma deliver_objects:
  assumes "\<forall>k v. responses self k = Some v \<longrightarrow> is_object v"
  shows "\<forall>k v. responses (deliver lib self evs) k = Some v \<longrightarrow> is_object v"
  using assms unfolding deliver_def
proof (induction evs arbitrary: self)
  case Nil
  then show ?case by simp
next
  case (Cons ev evs)
  from Cons.IH [OF handle_event_objects [OF Cons.prems]] show ?case by simp
qed

lemma poll_state_objects:
  assumes "\<forall>k v. responses self k = Some v \<longrightarrow> is_object v"
  shows "\<forall>k v. responses (poll_state lib sch self n) k = Some v \<longrightarrow> is_object v"
proof (induction n)
  case 0
  show ?case using deliver_objects [OF assms] by simp
next
  case (Suc n)
  show ?case using deliver_objects [OF Suc] by simp
qed

lemma wait_poll:
  assumes "wait_for_response lib sch cid timeout i self = Some r"
  shows "\<forall>self2. self = poll_state lib sch self2 i \<longrightarrow>
           (\<exists>n. snd r = poll_state lib sch self2 n \<and>
                (fst r = None \<longrightarrow> responses (snd r) cid \<noteq> None))"
proof (rule wait_for_response.raw_induct
    [where P = "\<lambda>lib sch cid timeout i self r.
        \<forall>self2. self = poll_state lib sch self2 i \<longrightarrow>
           (\<exists>n. snd r = poll_state lib sch self2 n \<and>
                (fst r = None \<longrightarrow> responses (snd r) cid \<noteq> None))",
     OF _ assms])
  fix w lib sch cid timeout i self r
  assume IH: "\<And>lib sch cid timeout i self r. w lib sch cid timeout i self = Some r \<Longrightarrow>
      \<forall>self2. self = poll_state lib sch self2 i \<longrightarrow>
           (\<exists>n. snd r = poll_state lib sch self2 n \<and>
                (fst r = None \<longrightarrow> responses (snd r) cid \<noteq> None))"
    and body: "(if responses self cid \<noteq> None then Some (None, self)
      else if real_of_int timeout < clock sch i - start_time sch
           then Some (Some (Exception (''Command timeout after '' @ str_int timeout @ ''s'')), self)
           else w lib sch cid timeout (Suc i) (deliver lib self (arrivals sch (Suc i)))) = Some r"
  show "\<forall>self2. self = poll_state lib sch self2 i \<longrightarrow>
           (\<exists>n. snd r = poll_state lib sch self2 n \<and>
                (fst r = None \<longrightarrow> responses (snd r) cid \<noteq> None))"
  proof (intro allI impI)
    fix self2 assume s: "self = poll_state lib sch self2 i"
    show "\<exists>n. snd r = poll_state lib sch self2 n \<and>
                (fst r = None \<longrightarrow> responses (snd r) cid \<noteq> None)"
    proof (cases "responses self cid \<noteq> None")
      case True
      with body have "r = (None, self)" by simp
      with True s show ?thesis by auto
    next
      case absent: False
      show ?thesis
      proof (cases "real_of_int timeout < clock sch i - start_time sch")
        case True
        with absent body s show ?thesis by auto
      next
        case False
        with absent body
        have "w lib sch cid timeout (Suc i) (deliver lib self (arrivals sch (Suc i))) = Some r"
          by simp
        from IH [OF this] s show ?thesis by simp
      qed
    qed
  qed
qed

lemma client_step_counter:
  assumes "client_step a b"
  shows "command_counter a \<le> command_counter b"
  using assms
proof cases
  case (event_step lib ev)
  then show ?thesis by (simp add: handle_event_frame)
next
  case (call_step lib sch command_type params timeout out)
  show ?thesis
  proof (cases "connected a")
    case True
    from send_command_frame [OF True call_step] show ?thesis by simp
  next
    case False
    with call_step show ?thesis by (simp add: send_command_def)
  qed
qed

lemma client_steps_counter:
  assumes "client_step\<^sup>*\<^sup>* a b"
  shows "command_counter a \<le> command_counter b"
  using assms by (induction rule: rtranclp_induct) (auto dest: client_step_counter)

lemma send_command_returned_own:
  assumes "connected self"
    and "send_command lib sch self command_type params timeout = Some (Inr v, self')"
  shows "\<exists>n response.
           responses (poll_state lib sch (snd (begin_command lib self command_type params)) n)
             (KStr (fst (begin_command lib self command_type params))) = Some response \<and>
           dict_get response ''result'' (JObj []) = Inr v"
proof -
  obtain cid self2 where b: "begin_command lib self command_type params = (cid, self2)"
    by (cases "begin_command lib self command_type params")
  from assms b obtain e self3 where
    w: "wait_for_response lib sch (KStr cid) timeout 0 (poll_state lib sch self2 0) = Some (e, self3)"
    and fin: "(Inr v, self') = (case e of Some x \<Rightarrow> (Inl x, self3) | None \<Rightarrow> finish_command lib self3 (KStr cid))"
    by (auto simp add: send_command_def split: option.splits)
  from fin have e: "e = None" by (cases e) auto
  from wait_poll [OF w] e obtain n where n: "self3 = poll_state lib sch self2 n"
    and "responses self3 (KStr cid) \<noteq> None" by auto
  then obtain response where r: "responses self3 (KStr cid) = Some response" by auto
  from fin e r have "dict_get response ''result'' (JObj []) = Inr v"
    by (auto simp add: finish_command_def Let_def split: sum.splits if_splits)
  with r n b show ?thesis by auto
qed

text \<open>
  C1: on a connected client, when the response for the generated command identifier is
  in \<open>responses\<close> at a test of the polling loop and no earlier test has timed out,
  the call returns the response's \<open>result\<close> (the empty dictionary when the key is
  absent) if its \<open>success\<close> is truthy, and otherwise (\<open>success\<close> falsy or absent)
  raises an exception whose message is \<open>Command failed: \<close> followed by the response's
  \<open>error\<close> as \<^verbatim>\<open>str\<close> prints it (a string prints as itself), or by
  \<open>Unknown error\<close> when the key is absent.
\<close>

theorem send_command_response:
  assumes "connected self"
    and "begin_command lib self command_type params = (command_id, self2)"
    and "\<forall>j<n. responses (poll_state lib sch self2 j) (KStr command_id) = None \<and>
               clock sch j - start_time sch \<le> real_of_int timeout"
    and "responses (poll_state lib sch self2 n) (KStr command_id) = Some (JObj response)"
  shows "map_option fst (send_command lib sch self command_type params timeout) =
     Some (if (case map_of response ''success'' of None \<Rightarrow> False | Some s \<Rightarrow> truthy s)
           then Inr (case map_of response ''result'' of None \<Rightarrow> JObj [] | Some r \<Rightarrow> r)
           else Inl (Exception (''Command failed: '' @
                  (case map_of response ''error'' of
                     None \<Rightarrow> ''Unknown error'' | Some e \<Rightarrow> py_str lib e))))"
proof -
  from assms(4) have "responses (poll_state lib sch self2 n) (KStr command_id) \<noteq> None" by simp
  from send_command_found [OF assms(1,2,3) this] assms(4)
  show ?thesis
    by (simp add: finish_command_def Let_def split: option.splits)
qed

theorem send_command_response_witness:
  \<open>connected fresh_client
   \<and> map_option fst (send_command demo_lib
        (arriving ''{"command_id": "cmd-1", "success": true, "result": {"loaded": true}}'')
        fresh_client ''navigate'' (JObj [(''url'', JStr ''https://example.com'')]) 30)
       = Some (Inr (JObj [(''loaded'', JBool True)]))
   \<and> map_option fst (send_command demo_lib
        (arriving ''{"command_id": "cmd-1", "success": true}'')
        fresh_client ''navigate'' (JObj [(''url'', JStr ''https://example.com'')]) 30)
       = Some (Inr (JObj []))
   \<and> map_option fst (send_command demo_lib
        (arriving ''{"command_id": "cmd-1", "success": false, "error": "No such tab"}'')
        fresh_client ''navigate'' (JObj [(''url'', JStr ''https://example.com'')]) 30)
       = Some (Inl (Exception ''Command failed: No such tab''))
   \<and> map_option fst (send_command demo_lib
        (arriving ''{"command_id": "cmd-1"}'')
        fresh_client ''navigate'' (JObj [(''url'', JStr ''https://example.com'')]) 30)
       = Some (Inl (Exception ''Command failed: Unknown error''))\<close>
proof -
  have c: "connected fresh_client" by (simp add: fresh_client_def)
  note r = send_command_response [OF c begin_fresh]
  show ?thesis
    using c
      r [OF arriving_polls [OF loads_result]]
      r [OF arriving_polls [OF loads_no_result]]
      r [OF arriving_polls [OF loads_error]]
      r [OF arriving_polls [OF loads_bare]]
    by simp
qed

text \<open>
  C2, as the code has it: on a connected client, when the generated command identifier
  is no key of \<open>responses\<close> at any test of the polling loop up to and including one
  at which the clock has passed \<open>start_time + timeout\<close>, the call raises the exception
  \<open>Command timeout after <timeout>s\<close>, at the first test at which the clock has passed
  it; it returns no value, and the frame it sent when it began is the only one it has
  sent (there is no retry).
\<close>

theorem send_command_timeout:
  assumes "connected self"
    and "begin_command lib self command_type params = (command_id, self2)"
    and "\<forall>j\<le>n. responses (poll_state lib sch self2 j) (KStr command_id) = None"
    and "clock sch n - start_time sch > real_of_int timeout"
  shows "\<exists>k. k \<le> n \<and>
           send_command lib sch self command_type params timeout =
             Some (Inl (Exception (''Command timeout after '' @ str_int timeout @ ''s'')),
                   poll_state lib sch self2 k) \<and>
           ws_sent (poll_state lib sch self2 k) =
             ws_sent self @ [json_dumps lib (build_command command_id command_type params)]"
proof -
  define k where "k = (LEAST i. clock sch i - start_time sch > real_of_int timeout)"
  have k: "clock sch k - start_time sch > real_of_int timeout"
    unfolding k_def using assms(4) by (rule LeastI)
  have kn: "k \<le> n" unfolding k_def using assms(4) by (rule Least_le)
  have before: "\<forall>j<k. responses (poll_state lib sch self2 j) (KStr command_id) = None \<and>
               clock sch j - start_time sch \<le> real_of_int timeout"
  proof (intro allI impI conjI)
    fix j assume "j < k"
    with kn assms(3) show "responses (poll_state lib sch self2 j) (KStr command_id) = None" by simp
    from \<open>j < k\<close> have "\<not> clock sch j - start_time sch > real_of_int timeout"
      unfolding k_def by (rule not_less_Least)
    then show "clock sch j - start_time sch \<le> real_of_int timeout" by simp
  qed
  from assms(3) kn have absent: "responses (poll_state lib sch self2 k) (KStr command_id) = None"
    by simp
  have "ws_sent (poll_state lib sch self2 k) = ws_sent self2" by (simp add: poll_state_frame)
  moreover from assms(2) have "ws_sent self2 =
      ws_sent self @ [json_dumps lib (build_command command_id command_type params)]"
    by (auto simp add: begin_command_def Let_def)
  ultimately show ?thesis
    using send_command_timeout_first [OF assms(1,2) before absent k] kn by auto
qed

theorem send_command_timeout_witness:
  \<open>connected fresh_client
   \<and> send_command demo_lib quiet fresh_client ''navigate''
        (JObj [(''url'', JStr ''https://example.com'')]) 1 =
       Some (Inl (Exception ''Command timeout after 1s''),
         \<lparr> connected = True, responses = Map.empty, command_counter = 1,
           ws_sent = [''{"command_id": "cmd-1", "type": "navigate", "params": {"url": "https://example.com"}}''] \<rparr>)\<close>
proof -
  have c: "connected fresh_client" by (simp add: fresh_client_def)
  have absent: "\<forall>j\<le>11. responses (poll_state demo_lib quiet sent_client j) (KStr ''cmd-1'') = None"
    by (simp add: quiet_polls sent_client_def)
  have late: "clock quiet 11 - start_time quiet > real_of_int 1"
    by (simp add: quiet_def)
  from send_command_timeout [OF c begin_fresh absent late] c
  show ?thesis
    by (auto simp add: quiet_polls sent_client_def str_int_def str_nat.simps digit_char_def)
qed

text \<open>
  C2 as it is written fails for a response that arrives after the time-out has passed
  and before the loop tests again: the loop tests for the response before it reads the
  clock. With a time-out of one second and tests 0.0, 0.4, 0.8 and 1.2 seconds after the
  start, the response is in \<open>responses\<close> at no test within the second, only at the
  test after it, and the call returns its result instead of raising.
\<close>

theorem send_command_late_response_counterexample:
  \<open>connected fresh_client
   \<and> begin_command demo_lib fresh_client ''navigate'' (JObj [(''url'', JStr ''https://example.com'')])
        = (''cmd-1'', sent_client)
   \<and> clock (straddling ''{"command_id": "cmd-1", "success": true, "result": {"loaded": true}}'') 0
        - start_time (straddling ''{"command_id": "cmd-1", "success": true, "result": {"loaded": true}}'') \<le> 1
   \<and> responses (poll_state demo_lib
        (straddling ''{"command_id": "cmd-1", "success": true, "result": {"loaded": true}}'') sent_client 0)
        (KStr ''cmd-1'') = None
   \<and> clock (straddling ''{"command_id": "cmd-1", "success": true, "result": {"loaded": true}}'') 1
        - start_time (straddling ''{"command_id": "cmd-1", "success": true, "result": {"loaded": true}}'') \<le> 1
   \<and> responses (poll_state demo_lib
        (straddling ''{"command_id": "cmd-1", "success": true, "result": {"loaded": true}}'') sent_client 1)
        (KStr ''cmd-1'') = None
   \<and> clock (straddling ''{"command_id": "cmd-1", "success": true, "result": {"loaded": true}}'') 2
        - start_time (straddling ''{"command_id": "cmd-1", "success": true, "result": {"loaded": true}}'') \<le> 1
   \<and> responses (poll_state demo_lib
        (straddling ''{"command_id": "cmd-1", "success": true, "result": {"loaded": true}}'') sent_client 2)
        (KStr ''cmd-1'') = None
   \<and> clock (straddling ''{"command_id": "cmd-1", "success": true, "result": {"loaded": true}}'') 3
        - start_time (straddling ''{"command_id": "cmd-1", "success": true, "result": {"loaded": true}}'') > 1
   \<and> map_option fst (send_command demo_lib
        (straddling ''{"command_id": "cmd-1", "success": true, "result": {"loaded": true}}'')
        fresh_client ''navigate'' (JObj [(''url'', JStr ''https://example.com'')]) 1)
       = Some (Inr (JObj [(''loaded'', JBool True)]))
   \<and> map_option fst (send_command demo_lib
        (straddling ''{"command_id": "cmd-1", "success": true, "result": {"loaded": true}}'')
        fresh_client ''navigate'' (JObj [(''url'', JStr ''https://example.com'')]) 1)
       \<noteq> Some (Inl (Exception ''Command timeout after 1s''))\<close>
proof -
  let ?sch = \<open>straddling ''{"command_id": "cmd-1", "success": true, "result": {"loaded": true}}''\<close>
  have c: "connected fresh_client" by (simp add: fresh_client_def)
  have k: "map_of [(''command_id'', JStr ''cmd-1''), (''success'', JBool True),
                 (''result'', JObj [(''loaded'', JBool True)])] ''command_id'' = Some (JStr ''cmd-1'')"
    by simp
  note p = straddling_polls [OF loads_result k]
  have t: "clock ?sch 0 - start_time ?sch \<le> 1" "clock ?sch 1 - start_time ?sch \<le> 1"
    "clock ?sch 2 - start_time ?sch \<le> 1" "clock ?sch 3 - start_time ?sch > 1"
    by (simp_all add: straddling_def)
  have a: "responses (poll_state demo_lib ?sch sent_client 0) (KStr ''cmd-1'') = None"
    "responses (poll_state demo_lib ?sch sent_client 1) (KStr ''cmd-1'') = None"
    "responses (poll_state demo_lib ?sch sent_client 2) (KStr ''cmd-1'') = None"
    unfolding p by (simp_all add: sent_client_def)
  have before: "\<forall>j<3. responses (poll_state demo_lib ?sch sent_client j) (KStr ''cmd-1'') = None \<and>
               clock ?sch j - start_time ?sch \<le> real_of_int 1"
    unfolding all_less_three using a t by simp
  have found: "responses (poll_state demo_lib ?sch sent_client 3) (KStr ''cmd-1'') \<noteq> None"
    using p(4) by simp
  have r: "map_option fst (send_command demo_lib ?sch fresh_client ''navigate''
        (JObj [(''url'', JStr ''https://example.com'')]) 1) = Some (Inr (JObj [(''loaded'', JBool True)]))"
    using send_command_found [OF c begin_fresh before found] p(4)
    by (simp add: finish_command_def)
  have ne: "map_option fst (send_command demo_lib ?sch fresh_client ''navigate''
        (JObj [(''url'', JStr ''https://example.com'')]) 1)
       \<noteq> Some (Inl (Exception ''Command timeout after 1s''))"
    unfolding r by simp
  show ?thesis by (intro conjI c begin_fresh t a r ne)
qed

text \<open>
  C3: a call that finds a response for its command identifier removes that entry before
  it returns or raises, whatever the response is: afterwards the identifier is no key of
  \<open>responses\<close>, and the rest of the client is as the loop left it.
\<close>

theorem send_command_pops_response:
  assumes "connected self"
    and "begin_command lib self command_type params = (command_id, self2)"
    and "\<forall>j<n. responses (poll_state lib sch self2 j) (KStr command_id) = None \<and>
               clock sch j - start_time sch \<le> real_of_int timeout"
    and "responses (poll_state lib sch self2 n) (KStr command_id) = Some response"
  shows "\<exists>out self'. send_command lib sch self command_type params timeout = Some (out, self') \<and>
           KStr command_id \<notin> dom (responses self') \<and>
           self' = (poll_state lib sch self2 n)
                     \<lparr>responses := (responses (poll_state lib sch self2 n))(KStr command_id := None)\<rparr>"
proof -
  from assms(4) have "responses (poll_state lib sch self2 n) (KStr command_id) \<noteq> None" by simp
  from send_command_found [OF assms(1,2,3) this] assms(4)
  show ?thesis
    by (auto simp add: finish_command_def Let_def split: option.splits sum.splits)
qed

theorem send_command_pops_response_witness:
  \<open>connected fresh_client
   \<and> KStr ''cmd-1'' \<notin> dom (responses (snd (the (send_command demo_lib
        (arriving ''{"command_id": "cmd-1", "success": true, "result": {"loaded": true}}'')
        fresh_client ''navigate'' (JObj [(''url'', JStr ''https://example.com'')]) 30))))
   \<and> fst (the (send_command demo_lib
        (arriving ''{"command_id": "cmd-1", "success": true, "result": {"loaded": true}}'')
        fresh_client ''navigate'' (JObj [(''url'', JStr ''https://example.com'')]) 30))
       = Inr (JObj [(''loaded'', JBool True)])
   \<and> KStr ''cmd-1'' \<notin> dom (responses (snd (the (send_command demo_lib
        (arriving ''{"command_id": "cmd-1", "success": false, "error": "No such tab"}'')
        fresh_client ''navigate'' (JObj [(''url'', JStr ''https://example.com'')]) 30))))
   \<and> fst (the (send_command demo_lib
        (arriving ''{"command_id": "cmd-1", "success": false, "error": "No such tab"}'')
        fresh_client ''navigate'' (JObj [(''url'', JStr ''https://example.com'')]) 30))
       = Inl (Exception ''Command failed: No such tab'')\<close>
proof -
  have c: "connected fresh_client" by (simp add: fresh_client_def)
  note r = send_command_pops_response [OF c begin_fresh]
  note f = send_command_found [OF c begin_fresh]
  have ok: \<open>fst (the (send_command demo_lib
        (arriving ''{"command_id": "cmd-1", "success": true, "result": {"loaded": true}}'')
        fresh_client ''navigate'' (JObj [(''url'', JStr ''https://example.com'')]) 30))
       = Inr (JObj [(''loaded'', JBool True)])\<close>
    using arriving_polls [OF loads_result]
    by (subst f [where n = 2]) (simp_all add: finish_command_def)
  have bad: \<open>fst (the (send_command demo_lib
        (arriving ''{"command_id": "cmd-1", "success": false, "error": "No such tab"}'')
        fresh_client ''navigate'' (JObj [(''url'', JStr ''https://example.com'')]) 30))
       = Inl (Exception ''Command failed: No such tab'')\<close>
    using arriving_polls [OF loads_error]
    by (subst f [where n = 2]) (simp_all add: finish_command_def)
  show ?thesis
    using c ok bad
      r [OF arriving_polls [OF loads_result]]
      r [OF arriving_polls [OF loads_error]]
    by auto
qed







text \<open>
  C6, as the code has it: a call on a connected client that returns or raises has
  incremented \<open>command_counter\<close> by one and used the identifier \<open>cmd-<counter>\<close>; a
  command begun on the client at any later moment (after any number of socket events and
  calls) gets a different identifier; and a value the call returns is the \<open>result\<close> of
  a response that was stored under the call's own identifier.
\<close>

theorem command_ids_fresh:
  assumes "connected self"
    and "send_command lib sch self command_type params timeout = Some (out, self')"
    and "client_step\<^sup>*\<^sup>* self' later"
  shows "command_counter self' = command_counter self + 1
     \<and> fst (begin_command lib self command_type params) = ''cmd-'' @ str_int (command_counter self')
     \<and> fst (begin_command lib' later command_type' params') \<noteq>
         fst (begin_command lib self command_type params)
     \<and> (\<forall>v. out = Inr v \<longrightarrow>
          (\<exists>n response.
             responses (poll_state lib sch (snd (begin_command lib self command_type params)) n)
               (KStr (fst (begin_command lib self command_type params))) = Some response \<and>
             dict_get response ''result'' (JObj []) = Inr v))"
proof (intro conjI allI impI)
  from send_command_frame [OF assms(1,2)]
  show c: "command_counter self' = command_counter self + 1" by simp
  then show "fst (begin_command lib self command_type params) = ''cmd-'' @ str_int (command_counter self')"
    by (simp add: begin_command_eq)
  from client_steps_counter [OF assms(3)] c
  have "command_counter later + 1 \<noteq> command_counter self + 1" by simp
  then have "str_int (command_counter later + 1) \<noteq> str_int (command_counter self + 1)"
    using str_int_inj by blast
  then show "fst (begin_command lib' later command_type' params') \<noteq>
         fst (begin_command lib self command_type params)"
    by (simp add: begin_command_eq)
next
  fix v assume "out = Inr v"
  with assms(2) have "send_command lib sch self command_type params timeout = Some (Inr v, self')"
    by simp
  from send_command_returned_own [OF assms(1) this]
  show "\<exists>n response.
             responses (poll_state lib sch (snd (begin_command lib self command_type params)) n)
               (KStr (fst (begin_command lib self command_type params))) = Some response \<and>
             dict_get response ''result'' (JObj []) = Inr v" .
qed

theorem command_ids_fresh_witness:
  \<open>connected fresh_client
   \<and> send_command demo_lib
        (arriving ''{"command_id": "cmd-1", "success": true, "result": {"loaded": true}}'')
        fresh_client ''navigate'' (JObj [(''url'', JStr ''https://example.com'')]) 30 \<noteq> None
   \<and> command_counter (snd (the (send_command demo_lib
        (arriving ''{"command_id": "cmd-1", "success": true, "result": {"loaded": true}}'')
        fresh_client ''navigate'' (JObj [(''url'', JStr ''https://example.com'')]) 30))) = 1
   \<and> fst (begin_command demo_lib fresh_client ''navigate''
        (JObj [(''url'', JStr ''https://example.com'')])) = ''cmd-1''
   \<and> fst (begin_command demo_lib
        (handle_event demo_lib (snd (the (send_command demo_lib
          (arriving ''{"command_id": "cmd-1", "success": true, "result": {"loaded": true}}'')
          fresh_client ''navigate'' (JObj [(''url'', JStr ''https://example.com'')]) 30))) Close)
        ''click'' (JObj [])) = ''cmd-2''\<close>
proof -
  let ?sch = \<open>arriving ''{"command_id": "cmd-1", "success": true, "result": {"loaded": true}}''\<close>
  let ?p = "JObj [(''url'', JStr ''https://example.com'')]"
  define fin where "fin = finish_command demo_lib (poll_state demo_lib ?sch sent_client 2) (KStr ''cmd-1'')"
  have c: "connected fresh_client" by (simp add: fresh_client_def)
  have "responses (poll_state demo_lib ?sch sent_client 2) (KStr ''cmd-1'') \<noteq> None"
    using arriving_polls(2) [OF loads_result] by simp
  from send_command_found [OF c begin_fresh arriving_polls(1) [OF loads_result] this]
  have eq: "send_command demo_lib ?sch fresh_client ''navigate'' ?p 30 = Some (fst fin, snd fin)"
    by (simp add: fin_def)
  have later: "client_step\<^sup>*\<^sup>* (snd fin) (handle_event demo_lib (snd fin) Close)"
    by (rule r_into_rtranclp) (rule client_step.event_step)
  note t = command_ids_fresh [OF c eq later, of demo_lib "''click''" "JObj []"]
  from t have c1: "command_counter (snd fin) = 1" by (simp add: fresh_client_def)
  from t c1 have id1: "fst (begin_command demo_lib fresh_client ''navigate'' ?p) = ''cmd-1''"
    by (simp add: str_int_def str_nat.simps digit_char_def)
  have "command_counter (handle_event demo_lib (snd fin) Close) = 1"
    using c1 by (simp add: handle_event_frame)
  then have id2: "fst (begin_command demo_lib (handle_event demo_lib (snd fin) Close) ''click'' (JObj []))
      = ''cmd-2''"
    by (simp add: begin_command_eq str_int_def str_nat.simps digit_char_def)
  from c eq c1 id1 id2 show ?thesis by simp
qed

text \<open>
  C6 as it is written fails on a client that is not connected: the call raises before it
  touches \<open>command_counter\<close>, so not every call increments the counter.
\<close>

theorem send_command_offline_no_id_counterexample:
  "\<not> connected offline_client
   \<and> send_command demo_lib quiet offline_client ''navigate''
         (JObj [(''url'', JStr ''https://example.com'')]) 30 =
       Some (Inl (Exception ''Not connected to server''), offline_client)
   \<and> command_counter (snd (the (send_command demo_lib quiet offline_client ''navigate''
         (JObj [(''url'', JStr ''https://example.com'')]) 30))) = command_counter offline_client
   \<and> command_counter (snd (the (send_command demo_lib quiet offline_client ''navigate''
         (JObj [(''url'', JStr ''https://example.com'')]) 30))) \<noteq> command_counter offline_client + 1"
  by (simp add: send_command_def offline_client_def)

end
